theory Spec2Isabelle
  imports Complex_Main
begin

section \<open>The cascading selection state machine of \<open>static/js/app.js\<close>\<close>

text \<open>
  The class \<open>F1UndercutApp\<close> keeps six fields and drives a page through DOM calls and
  four \<open>fetch\<close> requests.  The embedding is one record holding the fields of \<open>this\<close>,
  the parts of the document the methods read or write, and the network: the requests
  whose \<open>await\<close> has not resumed yet (\<open>pending\<close>) and the log of every \<open>fetch\<close> made so
  far (\<open>issued\<close>).

  An \<open>async\<close> method is split at its suspension point.  The part before the first
  \<open>await\<close> is the function with the method's name; the part after it is the function
  with suffix \<open>_resume\<close>, which takes the outcome of \<open>await fetch(...)\<close> followed by
  \<open>await response.json()\<close> (no statement stands between the two).  Every exception the
  \<open>try\<close> block can raise is a branch of the \<open>_resume\<close> function that runs the \<open>catch\<close>
  block, so each \<open>_resume\<close> function is total: nothing escapes the method.

  JavaScript values are modelled as follows: \<open>null\<close> is \<open>None\<close> / \<open>LapNull\<close>, a select's
  \<open>value\<close> is a string, \<open>parseInt\<close> yields a number or \<open>NaN\<close>, and truthiness is written
  out (\<open>truthy_str\<close>, \<open>truthy_lap\<close>).  Lap numbers are the integer values \<open>JSON.parse\<close>
  produced; a number written to a control and read back goes through its string form
  (\<open>parseInt_value\<close>).  Response bodies are \<open>null\<close> or objects of the shape
  the API declares, whose list field may be missing.  \<open>console\<close> output and the timer that
  removes an error message after five seconds are not modelled.
\<close>

subsection \<open>Values\<close>

datatype lapv = LapNull | LapNaN | LapNum int | LapLeadingDigit int
  \<comment> \<open>\<open>LapLeadingDigit n\<close>: the number \<open>parseInt\<close> reads off the exponent notation of \<open>n\<close>,
      which is its one digit before the point, from 1 to 9, with the sign of \<open>n\<close>\<close>

definition truthy_str :: "string option \<Rightarrow> bool" where
  "truthy_str v = (case v of None \<Rightarrow> False | Some x \<Rightarrow> x \<noteq> [])"

definition truthy_lap :: "lapv \<Rightarrow> bool" where
  "truthy_lap v =
     (case v of LapNull \<Rightarrow> False | LapNaN \<Rightarrow> False | LapNum n \<Rightarrow> n \<noteq> 0
      | LapLeadingDigit n \<Rightarrow> True)"

definition parseInt :: "int option \<Rightarrow> lapv" where
  \<comment> \<open>the argument is the integer the leading sign and digits of the string denote, if
      there are any\<close>
  "parseInt v = (case v of None \<Rightarrow> LapNaN | Some n \<Rightarrow> LapNum n)"

definition parseInt_value :: "int \<Rightarrow> lapv" where
  \<comment> \<open>\<open>parseInt\<close> of the string form of a number: below \<open>10^21\<close> in absolute value the string
      is the number in plain decimal digits; from there on it is in exponent notation
      (\<open>1e+21\<close>), and \<open>parseInt\<close> stops at the point or the \<open>e\<close>\<close>
  "parseInt_value n = (if \<bar>n\<bar> < 10 ^ 21 then parseInt (Some n) else LapLeadingDigit n)"

record race_event =
  RoundNumber :: int
  EventName :: string

record standing_row =
  position :: int
  driver :: string
  team :: string
  compound :: string

record predict_data =
  error :: "string option"
  success :: bool
  probability :: real
  confidence :: string

subsection \<open>The network\<close>

datatype request =
    ReqEvents "string option"
  | ReqLaps "string option" "string option"
  | ReqStandings "string option" "string option" lapv
  | ReqPredict "string option" "string option" lapv "string option" "string option"

text \<open>
  \<open>Rejected\<close>: \<open>fetch\<close> or \<open>json()\<close> rejected.  \<open>NullBody\<close>: the body parsed to \<open>null\<close>, so the
  first property access on it throws.  \<open>Body x\<close>: an object; \<open>x\<close> is its list field, \<open>None\<close>
  when the field is missing.
\<close>

datatype 'a reply = Rejected | NullBody | Body 'a

datatype predict_reply = PRejected | PUnparsable bool | PJson bool "predict_data option"
  \<comment> \<open>\<open>PRejected\<close>: \<open>fetch\<close> rejected.  \<open>PUnparsable ok\<close>: a response with \<open>response.ok = ok\<close>
      arrived and \<open>json()\<close> rejected.  \<open>PJson ok d\<close>: \<open>response.ok\<close> and the parsed body
      (\<open>None\<close> for \<open>null\<close>)\<close>

datatype response =
    REvents "race_event list option reply"
  | RLaps "int list option reply"
  | RStandings "standing_row list option reply"
  | RPredict predict_reply

subsection \<open>The document\<close>

datatype event_option = EventPlaceholder string | EventOption int string

datatype driver_option = DriverPlaceholder string | DriverOption string int

fun option_value :: "driver_option \<Rightarrow> string" where
  "option_value (DriverPlaceholder t) = []"
| "option_value (DriverOption d n) = d"

datatype panel_html =
    PanelBlank
  | SelectRacePrompt
  | NoStandingsData
  | Rows "(standing_row \<times> bool) list"

datatype btn_html = BtnSpinner | BtnText string

record state =
  currentYear :: "string option"
  currentRound :: "string option"
  currentLap :: lapv
  chaserDriver :: "string option"
  defenderDriver :: "string option"
  standings :: "standing_row list"
  eventSelect_options :: "event_option list"
  eventSelect_disabled :: bool
  lapSlider_range :: bool
  lapSlider_min :: int
  lapSlider_max :: int
  lapSlider_value :: int
  lapSlider_disabled :: bool
  lapValue_text :: lapv
  currentLapDisplay_text :: lapv
  chaserSelect_options :: "driver_option list"
  chaserSelect_value :: string
  chaserSelect_disabled :: bool
  defenderSelect_options :: "driver_option list"
  defenderSelect_value :: string
  defenderSelect_disabled :: bool
  standingsList_html :: panel_html
  standingsList_overlay :: bool
  standingsList_spinner :: bool
  predictBtn_disabled :: bool
  predictBtn_loading :: bool
  predictBtn_html :: btn_html
  chaserBox_active :: bool
  defenderBox_active :: bool
  predictionResult_shown :: bool
  successBadge_text :: string
  successBadge_class :: string
  probabilityValue_percent :: real
  confidenceBadge_text :: string
  middlePanel :: bool
  errors :: "string list"
  pending :: "request list"
  issued :: "request list"

text \<open>
  \<open>standingsList_spinner\<close> is the \<open>.loading-spinner\<close> child of the panel and
  \<open>standingsList_html\<close> the rest of its content: assigning \<open>innerHTML\<close> replaces both.
  \<open>middlePanel\<close> says whether the page has a \<open>.middle-panel\<close> element and \<open>errors\<close>
  lists the \<open>.error-message\<close> elements of the document.  \<open>lapSlider_range\<close> says whether
  the page declares \<open>lapSlider\<close> as a range input; \<open>lapSlider_min\<close>, \<open>lapSlider_max\<close> and
  \<open>lapSlider_value\<close> are the numbers whose string forms the control holds.
  \<open>probabilityValue_percent\<close>
  is \<open>data.probability * 100\<close> before \<open>toFixed(1)\<close> formats it.
\<close>

text \<open>
  A range input keeps its value inside its range (with step 1 nothing else happens to an
  integer): a value below the minimum becomes the minimum, and a value above the maximum
  becomes the maximum unless the maximum is below the minimum.  The browser applies this
  whenever a script assigns \<open>min\<close>, \<open>max\<close> or \<open>value\<close>.  Any other kind of input keeps
  what was assigned.
\<close>

definition sanitize :: "int \<Rightarrow> int \<Rightarrow> int \<Rightarrow> int" where
  "sanitize mn mx v = (if v < mn then mn else if mn \<le> mx \<and> mx < v then mx else v)"

definition resanitize :: "state \<Rightarrow> state" where
  "resanitize s =
     s\<lparr>lapSlider_value :=
         (if lapSlider_range s
          then sanitize (lapSlider_min s) (lapSlider_max s) (lapSlider_value s)
          else lapSlider_value s)\<rparr>"

definition set_lapSlider_min :: "int \<Rightarrow> state \<Rightarrow> state" where
  "set_lapSlider_min a s = resanitize (s\<lparr>lapSlider_min := a\<rparr>)"

definition set_lapSlider_max :: "int \<Rightarrow> state \<Rightarrow> state" where
  "set_lapSlider_max b s = resanitize (s\<lparr>lapSlider_max := b\<rparr>)"

definition set_lapSlider_value :: "int \<Rightarrow> state \<Rightarrow> state" where
  "set_lapSlider_value v s = resanitize (s\<lparr>lapSlider_value := v\<rparr>)"

definition fetch :: "request \<Rightarrow> state \<Rightarrow> state" where
  "fetch r s = s\<lparr>pending := pending s @ [r], issued := issued s @ [r]\<rparr>"

subsection \<open>Presentation helpers\<close>

definition showLoadingInSelect :: "state \<Rightarrow> state" where
  \<comment> \<open>only ever called with \<open>'eventSelect'\<close>\<close>
  "showLoadingInSelect s =
     s\<lparr>eventSelect_options := [EventPlaceholder ''Loading...''], eventSelect_disabled := True\<rparr>"

definition showLoadingInPanel :: "state \<Rightarrow> state" where
  \<comment> \<open>only ever called with \<open>'standingsList'\<close>\<close>
  "showLoadingInPanel s =
     s\<lparr>standingsList_html := PanelBlank, standingsList_overlay := True,
       standingsList_spinner := True\<rparr>"

definition hideLoadingInPanel :: "state \<Rightarrow> state" where
  "hideLoadingInPanel s = s\<lparr>standingsList_overlay := False, standingsList_spinner := False\<rparr>"

definition showError :: "string \<Rightarrow> state \<Rightarrow> state" where
  "showError message s = s\<lparr>errors := (if middlePanel s then [message] else [])\<rparr>"

definition showLoading :: "state \<Rightarrow> state" where
  "showLoading s =
     s\<lparr>predictBtn_loading := True, predictBtn_disabled := True, predictBtn_html := BtnSpinner\<rparr>"

definition hideLoading :: "state \<Rightarrow> state" where
  "hideLoading s =
     s\<lparr>predictBtn_loading := False, predictBtn_disabled := False,
       predictBtn_html := BtnText ''Predict Undercut''\<rparr>"

definition clearSelections :: "state \<Rightarrow> state" where
  "clearSelections s =
     (set_lapSlider_value 1
        (s\<lparr>currentLap := LapNull, chaserDriver := None, defenderDriver := None\<rparr>))
      \<lparr>lapSlider_disabled := True,
       lapValue_text := LapNum 1, currentLapDisplay_text := LapNum 1,
       chaserSelect_value := [], defenderSelect_value := [],
       chaserSelect_disabled := True, defenderSelect_disabled := True,
       predictionResult_shown := False,
       standingsList_html := SelectRacePrompt, standingsList_spinner := False\<rparr>"

subsection \<open>Standings and driver assignment\<close>

definition updateStandingsList :: "state \<Rightarrow> state" where
  "updateStandingsList s =
     (if standings s = []
      then s\<lparr>standingsList_html := NoStandingsData, standingsList_spinner := False\<rparr>
      else s\<lparr>standingsList_html :=
                Rows (map (\<lambda>d. (d, Some (driver d) = chaserDriver s
                                   \<or> Some (driver d) = defenderDriver s)) (standings s)),
             standingsList_spinner := False\<rparr>)"

definition select_value :: "driver_option list \<Rightarrow> string \<Rightarrow> string" where
  \<comment> \<open>assigning \<open>select.value\<close>: the value sticks only if some option carries it\<close>
  "select_value opts v = (if v \<in> set (map option_value opts) then v else [])"

definition updateDriverSelects :: "state \<Rightarrow> state" where
  "updateDriverSelects s =
     (let s1 = s\<lparr>chaserSelect_options := [DriverPlaceholder ''Select Chaser''],
                 chaserSelect_value := [],
                 defenderSelect_options := [DriverPlaceholder ''Select Defender''],
                 defenderSelect_value := []\<rparr>
      in if standings s1 = []
         then s1\<lparr>chaserSelect_disabled := True, defenderSelect_disabled := True\<rparr>
         else
           (let opts = map (\<lambda>d. DriverOption (driver d) (position d)) (standings s1);
                s2 = s1\<lparr>chaserSelect_options := chaserSelect_options s1 @ opts,
                        defenderSelect_options := defenderSelect_options s1 @ opts,
                        chaserSelect_disabled := False, defenderSelect_disabled := False\<rparr>;
                s3 = (if truthy_str (chaserDriver s2)
                      then s2\<lparr>chaserSelect_value :=
                                select_value (chaserSelect_options s2)
                                  (case chaserDriver s2 of Some c \<Rightarrow> c | None \<Rightarrow> [])\<rparr>
                      else s2)
            in if truthy_str (defenderDriver s3)
               then s3\<lparr>defenderSelect_value :=
                         select_value (defenderSelect_options s3)
                           (case defenderDriver s3 of Some c \<Rightarrow> c | None \<Rightarrow> [])\<rparr>
               else s3))"

definition updateSelectedDrivers :: "state \<Rightarrow> state" where
  "updateSelectedDrivers s =
     (let s1 = updateStandingsList s
      in s1\<lparr>predictBtn_disabled := \<not> (truthy_str (chaserDriver s1) \<and> truthy_str (defenderDriver s1)),
            chaserBox_active := (chaserDriver s1 \<noteq> None),
            defenderBox_active := (defenderDriver s1 \<noteq> None)\<rparr>)"

definition selectDriver :: "string \<Rightarrow> state \<Rightarrow> state" where
  "selectDriver d s =
     updateSelectedDrivers
       (if \<not> truthy_str (chaserDriver s)
        then s\<lparr>chaserDriver := Some d,
               chaserSelect_value := select_value (chaserSelect_options s) d\<rparr>
        else if \<not> truthy_str (defenderDriver s)
        then s\<lparr>defenderDriver := Some d,
               defenderSelect_value := select_value (defenderSelect_options s) d\<rparr>
        else s\<lparr>defenderDriver := Some d,
               defenderSelect_value := select_value (defenderSelect_options s) d\<rparr>)"

subsection \<open>The three read operations\<close>

definition loadEvents :: "string option \<Rightarrow> state \<Rightarrow> state" where
  "loadEvents year s = fetch (ReqEvents year) (showLoadingInSelect s)"

definition loadEvents_resume :: "race_event list option reply \<Rightarrow> state \<Rightarrow> state" where
  "loadEvents_resume rep s =
     (case rep of
        Rejected \<Rightarrow> showError ''Failed to load races'' s
      | NullBody \<Rightarrow>
          showError ''Failed to load races''
            (s\<lparr>eventSelect_options := [EventPlaceholder ''Select Race'']\<rparr>)
      | Body events \<Rightarrow>
          (let s1 = s\<lparr>eventSelect_options := [EventPlaceholder ''Select Race'']\<rparr>;
               s2 = (case events of
                       Some (e # es) \<Rightarrow>
                         s1\<lparr>eventSelect_options := eventSelect_options s1 @
                               map (\<lambda>ev. EventOption (RoundNumber ev) (EventName ev)) (e # es),
                            eventSelect_disabled := False\<rparr>
                     | _ \<Rightarrow> showError ''No races found for this year'' s1)
           in clearSelections s2))"

definition loadStandings :: "string option \<Rightarrow> string option \<Rightarrow> lapv \<Rightarrow> state \<Rightarrow> state" where
  "loadStandings year rnd lap s = fetch (ReqStandings year rnd lap) (showLoadingInPanel s)"

definition loadStandings_resume :: "standing_row list option reply \<Rightarrow> state \<Rightarrow> state" where
  "loadStandings_resume rep s =
     (case rep of
        Rejected \<Rightarrow> showError ''Failed to load driver standings'' (hideLoadingInPanel s)
      | NullBody \<Rightarrow>
          showError ''Failed to load driver standings''
            (hideLoadingInPanel (hideLoadingInPanel s))
      | Body rows \<Rightarrow>
          updateDriverSelects
            (updateStandingsList
               ((hideLoadingInPanel s)\<lparr>standings := (case rows of Some l \<Rightarrow> l | None \<Rightarrow> [])\<rparr>)))"

definition loadLaps :: "string option \<Rightarrow> string option \<Rightarrow> state \<Rightarrow> state" where
  "loadLaps year rnd s = fetch (ReqLaps year rnd) (showLoadingInPanel s)"

definition loadLaps_resume ::
  "string option \<Rightarrow> string option \<Rightarrow> int list option reply \<Rightarrow> state \<Rightarrow> state" where
  "loadLaps_resume year rnd rep s =
     (case rep of
        Rejected \<Rightarrow> showError ''Failed to load lap data'' (hideLoadingInPanel s)
      | NullBody \<Rightarrow>
          showError ''Failed to load lap data'' (hideLoadingInPanel (hideLoadingInPanel s))
      | Body laps \<Rightarrow>
          (let s1 = hideLoadingInPanel s
           in case laps of
                Some (l # ls) \<Rightarrow>
                  (case filter (\<lambda>lap. lap \<ge> 1) (l # ls) of
                     v # vs \<Rightarrow>
                       (let minLap = max 1 (fold min vs v);
                            maxLap = fold max vs v;
                            s2 = (set_lapSlider_value minLap
                                    (set_lapSlider_max maxLap (set_lapSlider_min minLap s1)))
                                   \<lparr>lapSlider_disabled := False\<rparr>;
                            s3 = s2\<lparr>currentLap := parseInt_value (lapSlider_value s2)\<rparr>;
                            s4 = s3\<lparr>lapValue_text := currentLap s3,
                                    currentLapDisplay_text := currentLap s3\<rparr>
                        in loadStandings year rnd (currentLap s4) s4)
                   | [] \<Rightarrow>
                       showError ''No valid lap data available (all laps are below 1)'' s1)
              | _ \<Rightarrow> showError ''No pit stop data available for this race'' s1))"

subsection \<open>Prediction\<close>

definition validateSelection :: "state \<Rightarrow> bool \<times> state" where
  "validateSelection s =
     (if \<not> truthy_str (currentYear s) \<or> \<not> truthy_str (currentRound s)
           \<or> \<not> truthy_lap (currentLap s)
      then (False, showError ''Please select year, race, and lap'' s)
      else if \<not> truthy_str (chaserDriver s) \<or> \<not> truthy_str (defenderDriver s)
      then (False, showError ''Please select both chaser and defender drivers'' s)
      else if chaserDriver s = defenderDriver s
      then (False, showError ''Chaser and defender must be different drivers'' s)
      else (True, s))"

definition displayPrediction :: "predict_data \<Rightarrow> state \<Rightarrow> state" where
  "displayPrediction d s =
     s\<lparr>predictionResult_shown := True,
       successBadge_text := (if success d then ''SUCCESS'' else ''FAIL''),
       successBadge_class := ''success-badge '' @ (if success d then ''success'' else ''fail''),
       probabilityValue_percent := probability d * 100,
       confidenceBadge_text := confidence d @ '' Confidence''\<rparr>"

definition predictUndercut :: "state \<Rightarrow> state" where
  "predictUndercut s =
     (case validateSelection s of
        (False, s1) \<Rightarrow> s1
      | (True, s1) \<Rightarrow>
          fetch (ReqPredict (currentYear s1) (currentRound s1) (currentLap s1)
                            (chaserDriver s1) (defenderDriver s1))
                (showLoading s1))"

definition predictUndercut_resume :: "predict_reply \<Rightarrow> state \<Rightarrow> state" where
  "predictUndercut_resume rep s =
     (case rep of
        PRejected \<Rightarrow> showError ''Failed to get prediction'' (hideLoading s)
      | PUnparsable ok \<Rightarrow> showError ''Failed to get prediction'' (hideLoading s)
      | PJson ok None \<Rightarrow>
          \<comment> \<open>\<open>displayPrediction(null)\<close> shows the result box, then \<open>data.success\<close> throws;
              \<open>data.error\<close> throws at once\<close>
          (if ok
           then showError ''Failed to get prediction''
                  (hideLoading ((hideLoading s)\<lparr>predictionResult_shown := True\<rparr>))
           else showError ''Failed to get prediction'' (hideLoading (hideLoading s)))
      | PJson ok (Some d) \<Rightarrow>
          (let s1 = hideLoading s
           in if ok then displayPrediction d s1
              else showError (case error d of
                                Some e \<Rightarrow> if e \<noteq> [] then e else ''Prediction failed''
                              | None \<Rightarrow> ''Prediction failed'') s1))"

subsection \<open>Event handlers (\<open>bindEvents\<close>) and the event loop\<close>

definition on_yearSelect_change :: "string \<Rightarrow> state \<Rightarrow> state" where
  "on_yearSelect_change v s =
     (let s1 = s\<lparr>currentYear := Some v\<rparr>
      in if truthy_str (currentYear s1) then loadEvents (currentYear s1) s1 else s1)"

definition on_eventSelect_change :: "string \<Rightarrow> state \<Rightarrow> state" where
  "on_eventSelect_change v s =
     (let s1 = s\<lparr>currentRound := Some v\<rparr>
      in if truthy_str (currentYear s1) \<and> truthy_str (currentRound s1)
         then loadLaps (currentYear s1) (currentRound s1) s1 else s1)"

definition on_lapSlider_input :: "int option \<Rightarrow> state \<Rightarrow> state" where
  "on_lapSlider_input v s =
     (let s1 = s\<lparr>currentLap := parseInt v\<rparr>;
          s2 = s1\<lparr>lapValue_text := currentLap s1, currentLapDisplay_text := currentLap s1\<rparr>
      in if truthy_str (currentYear s2) \<and> truthy_str (currentRound s2) \<and> truthy_lap (currentLap s2)
         then loadStandings (currentYear s2) (currentRound s2) (currentLap s2) s2 else s2)"

definition on_chaserSelect_change :: "string \<Rightarrow> state \<Rightarrow> state" where
  "on_chaserSelect_change v s = updateSelectedDrivers (s\<lparr>chaserDriver := Some v\<rparr>)"

definition on_defenderSelect_change :: "string \<Rightarrow> state \<Rightarrow> state" where
  "on_defenderSelect_change v s = updateSelectedDrivers (s\<lparr>defenderDriver := Some v\<rparr>)"

datatype ui_event =
    YearChange string
  | RaceChange string
  | LapInput "int option"
  | ChaserChange string
  | DefenderChange string
  | DriverClick string
  | PredictClick
  | Deliver nat response

text \<open>
  \<open>Deliver n r\<close>: the \<open>n\<close>-th request still in flight settles with outcome \<open>r\<close>.  Requests
  settle in any order; a response of the wrong kind for its request is no event at all.
\<close>

fun resume :: "request \<Rightarrow> response \<Rightarrow> state \<Rightarrow> state option" where
  "resume (ReqEvents y) (REvents rep) s = Some (loadEvents_resume rep s)"
| "resume (ReqLaps y r) (RLaps rep) s = Some (loadLaps_resume y r rep s)"
| "resume (ReqStandings y r l) (RStandings rep) s = Some (loadStandings_resume rep s)"
| "resume (ReqPredict y r l c d) (RPredict rep) s = Some (predictUndercut_resume rep s)"
| "resume _ _ s = None"

definition deliver :: "nat \<Rightarrow> response \<Rightarrow> state \<Rightarrow> state" where
  "deliver n rsp s =
     (if n < length (pending s)
      then (case resume (pending s ! n) rsp
                   (s\<lparr>pending := take n (pending s) @ drop (Suc n) (pending s)\<rparr>) of
              Some s' \<Rightarrow> s'
            | None \<Rightarrow> s)
      else s)"

text \<open>
  When a \<open>change\<close> or \<open>input\<close> handler runs, the browser has already given the control the
  value the user chose; the handler then reads it from \<open>e.target.value\<close>.
\<close>

fun step :: "ui_event \<Rightarrow> state \<Rightarrow> state" where
  "step (YearChange v) s = on_yearSelect_change v s"
| "step (RaceChange v) s = on_eventSelect_change v s"
| "step (LapInput v) s =
     on_lapSlider_input v
       (case v of Some n \<Rightarrow> s\<lparr>lapSlider_value := n\<rparr> | None \<Rightarrow> s)"
| "step (ChaserChange v) s = on_chaserSelect_change v (s\<lparr>chaserSelect_value := v\<rparr>)"
| "step (DefenderChange v) s = on_defenderSelect_change v (s\<lparr>defenderSelect_value := v\<rparr>)"
| "step (DriverClick d) s = selectDriver d s"
| "step PredictClick s = predictUndercut s"
| "step (Deliver n rsp) s = deliver n rsp s"

fun run :: "ui_event list \<Rightarrow> state \<Rightarrow> state" where
  "run [] s = s"
| "run (e # es) s = run es (step e s)"

text \<open>
  The state right after \<open>new F1UndercutApp()\<close>.  The constructor sets the six fields; the
  markup of the page is not among the sources, so the document part below is the page the
  methods expect: every control they later enable starts disabled, the lap slider is a
  range input, the panel shows its prompt, and a \<open>.middle-panel\<close> exists.  The general
  theorems quantify over every state.
\<close>

definition initial :: state where
  "initial =
     \<lparr>currentYear = None, currentRound = None, currentLap = LapNull,
      chaserDriver = None, defenderDriver = None, standings = [],
      eventSelect_options = [EventPlaceholder ''Select Race''], eventSelect_disabled = True,
      lapSlider_range = True,
      lapSlider_min = 1, lapSlider_max = 1, lapSlider_value = 1, lapSlider_disabled = True,
      lapValue_text = LapNum 1, currentLapDisplay_text = LapNum 1,
      chaserSelect_options = [DriverPlaceholder ''Select Chaser''], chaserSelect_value = [],
      chaserSelect_disabled = True,
      defenderSelect_options = [DriverPlaceholder ''Select Defender''], defenderSelect_value = [],
      defenderSelect_disabled = True,
      standingsList_html = SelectRacePrompt, standingsList_overlay = False,
      standingsList_spinner = False,
      predictBtn_disabled = True, predictBtn_loading = False,
      predictBtn_html = BtnText ''Predict Undercut'',
      chaserBox_active = False, defenderBox_active = False,
      predictionResult_shown = False,
      successBadge_text = [], successBadge_class = [], probabilityValue_percent = 0,
      confidenceBadge_text = [],
      middlePanel = True, errors = [], pending = [], issued = []\<rparr>"

subsection \<open>Predicates on fetches\<close>

text \<open>
  \<open>keys_set r\<close>: every key the request carries is set (truthy).  \<open>upstream_set r s\<close>: the
  selections of state \<open>s\<close> that lie upstream of the request's level are set.
  \<open>carries_selection r s\<close>: the keys of the request are the current selections of \<open>s\<close>.
  \<open>new_fetches e s\<close>: the requests event \<open>e\<close> issues from state \<open>s\<close>.
\<close>

fun keys_set :: "request \<Rightarrow> bool" where
  "keys_set (ReqEvents y) = truthy_str y"
| "keys_set (ReqLaps y r) = (truthy_str y \<and> truthy_str r)"
| "keys_set (ReqStandings y r l) = (truthy_str y \<and> truthy_str r \<and> truthy_lap l)"
| "keys_set (ReqPredict y r l c d) =
     (truthy_str y \<and> truthy_str r \<and> truthy_lap l \<and> truthy_str c \<and> truthy_str d)"

fun upstream_set :: "request \<Rightarrow> state \<Rightarrow> bool" where
  "upstream_set (ReqEvents y) s = truthy_str (currentYear s)"
| "upstream_set (ReqLaps y r) s = (truthy_str (currentYear s) \<and> truthy_str (currentRound s))"
| "upstream_set (ReqStandings y r l) s =
     (truthy_str (currentYear s) \<and> truthy_str (currentRound s) \<and> truthy_lap (currentLap s))"
| "upstream_set (ReqPredict y r l c d) s =
     (truthy_str (currentYear s) \<and> truthy_str (currentRound s) \<and> truthy_lap (currentLap s)
      \<and> truthy_str (chaserDriver s) \<and> truthy_str (defenderDriver s))"

fun carries_selection :: "request \<Rightarrow> state \<Rightarrow> bool" where
  "carries_selection (ReqEvents y) s = (y = currentYear s)"
| "carries_selection (ReqLaps y r) s = (y = currentYear s \<and> r = currentRound s)"
| "carries_selection (ReqStandings y r l) s =
     (y = currentYear s \<and> r = currentRound s \<and> l = currentLap s)"
| "carries_selection (ReqPredict y r l c d) s =
     (y = currentYear s \<and> r = currentRound s \<and> l = currentLap s
      \<and> c = chaserDriver s \<and> d = defenderDriver s)"

definition new_fetches :: "ui_event \<Rightarrow> state \<Rightarrow> request list" where
  "new_fetches e s = drop (length (issued s)) (issued (step e s))"

fun is_Deliver :: "ui_event \<Rightarrow> bool" where
  "is_Deliver (Deliver n rsp) = True"
| "is_Deliver _ = False"

definition all_keys_set :: "state \<Rightarrow> bool" where
  "all_keys_set s = (list_all keys_set (pending s) \<and> list_all keys_set (issued s))"

subsection \<open>Sample sessions\<close>

definition season_2023 :: "race_event list" where
  "season_2023 =
     [\<lparr>RoundNumber = 1, EventName = ''Bahrain Grand Prix''\<rparr>,
      \<lparr>RoundNumber = 2, EventName = ''Saudi Arabian Grand Prix''\<rparr>,
      \<lparr>RoundNumber = 5, EventName = ''Miami Grand Prix''\<rparr>]"

definition rows_lap1 :: "standing_row list" where
  "rows_lap1 =
     [\<lparr>position = 1, driver = ''VER'', team = ''Red Bull Racing'', compound = ''SOFT''\<rparr>,
      \<lparr>position = 2, driver = ''HAM'', team = ''Mercedes'', compound = ''MEDIUM''\<rparr>,
      \<lparr>position = 3, driver = ''LEC'', team = ''Ferrari'', compound = ''SOFT''\<rparr>]"

definition rows_lap3 :: "standing_row list" where
  "rows_lap3 =
     [\<lparr>position = 1, driver = ''HAM'', team = ''Mercedes'', compound = ''MEDIUM''\<rparr>,
      \<lparr>position = 2, driver = ''VER'', team = ''Red Bull Racing'', compound = ''SOFT''\<rparr>,
      \<lparr>position = 3, driver = ''LEC'', team = ''Ferrari'', compound = ''SOFT''\<rparr>]"

definition rows_lap5 :: "standing_row list" where
  "rows_lap5 =
     [\<lparr>position = 1, driver = ''LEC'', team = ''Ferrari'', compound = ''HARD''\<rparr>,
      \<lparr>position = 2, driver = ''HAM'', team = ''Mercedes'', compound = ''MEDIUM''\<rparr>,
      \<lparr>position = 3, driver = ''VER'', team = ''Red Bull Racing'', compound = ''HARD''\<rparr>]"

definition rows_ABC :: "standing_row list" where
  "rows_ABC =
     [\<lparr>position = 1, driver = ''A'', team = ''T1'', compound = ''SOFT''\<rparr>,
      \<lparr>position = 2, driver = ''B'', team = ''T2'', compound = ''SOFT''\<rparr>,
      \<lparr>position = 3, driver = ''C'', team = ''T3'', compound = ''HARD''\<rparr>]"

definition likely :: predict_data where
  "likely = \<lparr>error = None, success = True, probability = 3 / 4, confidence = ''High''\<rparr>"

text \<open>Year 2023 is chosen, its races arrive, race 1 is chosen and its laps 1 to 5 arrive.\<close>

definition race_chosen :: "ui_event list" where
  "race_chosen =
     [YearChange ''2023'', Deliver 0 (REvents (Body (Some season_2023))),
      RaceChange ''1'', Deliver 0 (RLaps (Body (Some [1, 2, 3, 4, 5])))]"

text \<open>
  Then the standings of lap 1 arrive, VER and HAM are clicked, and a prediction is
  requested and shown.
\<close>

definition full_session :: "ui_event list" where
  "full_session =
     race_chosen @
     [Deliver 0 (RStandings (Body (Some rows_lap1))),
      DriverClick ''VER'', DriverClick ''HAM'',
      PredictClick, Deliver 0 (RPredict (PJson True (Some likely)))]"

text \<open>
  The slider is moved to lap 3 and on to lap 5 while the standings of lap 1 have arrived
  and those of laps 3 and 5 are in flight.
\<close>

definition laps_3_then_5 :: "ui_event list" where
  "laps_3_then_5 =
     race_chosen @
     [Deliver 0 (RStandings (Body (Some rows_lap1))), LapInput (Some 3), LapInput (Some 5)]"

text \<open>Race 5 is chosen and, before its laps arrive, the race select is set back to its prompt.\<close>

definition race_unchosen :: "ui_event list" where
  "race_unchosen =
     [YearChange ''2023'', Deliver 0 (REvents (Body (Some season_2023))),
      RaceChange ''5'', RaceChange []]"

text \<open>The selection of the prediction example: 2023, round 5, lap 12, VER against VER.\<close>

definition ver_vs_ver :: state where
  "ver_vs_ver =
     initial\<lparr>currentYear := Some ''2023'', currentRound := Some ''5'', currentLap := LapNum 12,
             chaserDriver := Some ''VER'', defenderDriver := Some ''VER''\<rparr>"

text \<open>The full session with a second prediction requested and still in flight.\<close>

definition predict_in_flight :: state where
  "predict_in_flight = run (full_session @ [PredictClick]) initial"

text \<open>
  After race 1 has loaded with its standings, race 2 is chosen and its lap set arrives
  empty, or with no lap above 0.
\<close>

definition second_race_no_laps :: "ui_event list" where
  "second_race_no_laps =
     race_chosen @
     [Deliver 0 (RStandings (Body (Some rows_lap1))),
      RaceChange ''2'', Deliver 0 (RLaps (Body (Some [])))]"

definition second_race_no_valid_laps :: "ui_event list" where
  "second_race_no_valid_laps =
     race_chosen @
     [Deliver 0 (RStandings (Body (Some rows_lap1))),
      RaceChange ''2'', Deliver 0 (RLaps (Body (Some [- 3, - 1, 0])))]"

text \<open>The standings of the default lap arrive empty; the events request is rejected.\<close>

definition standings_empty :: "ui_event list" where
  "standings_empty = race_chosen @ [Deliver 0 (RStandings (Body (Some [])))]"

definition events_rejected :: "ui_event list" where
  "events_rejected = [YearChange ''2023'', Deliver 0 (REvents Rejected)]"

text \<open>
  With laps 3 and 5 in flight, the response for lap 5 arrives first and the response for
  lap 3 after it.
\<close>

definition two_in_flight :: state where
  "two_in_flight = run laps_3_then_5 initial"

definition fresh_arrival :: "ui_event list" where
  "fresh_arrival = laps_3_then_5 @ [Deliver 1 (RStandings (Body (Some rows_lap5)))]"

definition stale_arrival :: "ui_event list" where
  "stale_arrival =
     laps_3_then_5 @
     [Deliver 1 (RStandings (Body (Some rows_lap5))),
      Deliver 0 (RStandings (Body (Some rows_lap3)))]"

text \<open>
  After the full session, another race is chosen and its laps arrive; or another lap is
  chosen and its standings arrive; or another year is chosen and its races arrive.
\<close>

definition race_rechosen :: "ui_event list" where
  "race_rechosen =
     full_session @ [RaceChange ''2'', Deliver 0 (RLaps (Body (Some [1, 2, 3])))]"

definition lap_rechosen :: "ui_event list" where
  "lap_rechosen =
     full_session @ [LapInput (Some 2), Deliver 0 (RStandings (Body (Some rows_lap3)))]"

definition year_rechosen :: "ui_event list" where
  "year_rechosen =
     full_session @ [YearChange ''2024'', Deliver 0 (REvents (Body (Some season_2023)))]"

text \<open>
  The state in which race 5 was chosen and unchosen again while its laps request is in
  flight, and the arrival of those laps.
\<close>

definition laps_in_flight :: state where
  "laps_in_flight = run race_unchosen initial"

definition late_laps :: ui_event where
  "late_laps = Deliver 0 (RLaps (Body (Some [1, 2, 3])))"


section \<open>Properties\<close>

lemmas slider_defs =
  sanitize_def resanitize_def set_lapSlider_min_def set_lapSlider_max_def
  set_lapSlider_value_def

lemmas helper_defs =
  truthy_str_def truthy_lap_def parseInt_def parseInt_value_def slider_defs fetch_def
  showLoadingInSelect_def
  showLoadingInPanel_def hideLoadingInPanel_def showError_def showLoading_def hideLoading_def
  clearSelections_def updateStandingsList_def select_value_def updateDriverSelects_def
  updateSelectedDrivers_def selectDriver_def displayPrediction_def

lemmas method_defs =
  loadEvents_def loadEvents_resume_def loadStandings_def loadStandings_resume_def
  loadLaps_def loadLaps_resume_def validateSelection_def predictUndercut_def
  predictUndercut_resume_def

lemmas handler_defs =
  on_yearSelect_change_def on_eventSelect_change_def on_lapSlider_input_def
  on_chaserSelect_change_def on_defenderSelect_change_def deliver_def

lemmas sample_defs =
  season_2023_def rows_lap1_def likely_def race_chosen_def full_session_def initial_def

subsection \<open>Prediction validation\<close>

text \<open>
  Claim C5.  \<open>predictUndercut\<close> returns at once when \<open>validateSelection\<close> fails, and
  \<open>validateSelection\<close> checks in this order: year, round and lap all set; chaser and
  defender both set; chaser different from defender.  The first check that fails shows
  its own message, which replaces any message shown before, and the log of issued
  requests and the set of requests in flight stay as they were.  When all three pass,
  exactly one predict request is issued and no message is shown.  For the selection 2023,
  round 5, lap 12, VER against VER the message is "Chaser and defender must be different
  drivers" and nothing is requested.
\<close>

theorem validation_gate:
  "(\<not> (truthy_str (currentYear s) \<and> truthy_str (currentRound s) \<and> truthy_lap (currentLap s))
      \<longrightarrow> predictUndercut s = showError ''Please select year, race, and lap'' s)
   \<and> (truthy_str (currentYear s) \<and> truthy_str (currentRound s) \<and> truthy_lap (currentLap s)
      \<and> \<not> (truthy_str (chaserDriver s) \<and> truthy_str (defenderDriver s))
      \<longrightarrow> predictUndercut s = showError ''Please select both chaser and defender drivers'' s)
   \<and> (truthy_str (currentYear s) \<and> truthy_str (currentRound s) \<and> truthy_lap (currentLap s)
      \<and> truthy_str (chaserDriver s) \<and> truthy_str (defenderDriver s)
      \<and> chaserDriver s = defenderDriver s
      \<longrightarrow> predictUndercut s = showError ''Chaser and defender must be different drivers'' s)
   \<and> (truthy_str (currentYear s) \<and> truthy_str (currentRound s) \<and> truthy_lap (currentLap s)
      \<and> truthy_str (chaserDriver s) \<and> truthy_str (defenderDriver s)
      \<and> chaserDriver s \<noteq> defenderDriver s
      \<longrightarrow> issued (predictUndercut s) =
            issued s @ [ReqPredict (currentYear s) (currentRound s) (currentLap s)
                                   (chaserDriver s) (defenderDriver s)]
          \<and> errors (predictUndercut s) = errors s)
   \<and> issued (showError m s) = issued s
   \<and> pending (showError m s) = pending s
   \<and> errors (showError m s) = (if middlePanel s then [m] else [])
   \<and> predictUndercut ver_vs_ver =
       ver_vs_ver\<lparr>errors := [''Chaser and defender must be different drivers'']\<rparr>
   \<and> issued (predictUndercut ver_vs_ver) = []"
  by (simp add: predictUndercut_def validateSelection_def showError_def fetch_def
      showLoading_def ver_vs_ver_def initial_def truthy_str_def truthy_lap_def)

theorem validation_gate_witness:
  "truthy_str (currentYear ver_vs_ver) \<and> truthy_str (currentRound ver_vs_ver)
   \<and> truthy_lap (currentLap ver_vs_ver) \<and> truthy_str (chaserDriver ver_vs_ver)
   \<and> truthy_str (defenderDriver ver_vs_ver) \<and> chaserDriver ver_vs_ver = defenderDriver ver_vs_ver
   \<and> predictUndercut ver_vs_ver =
       showError ''Chaser and defender must be different drivers'' ver_vs_ver
   \<and> issued (showError ''Chaser and defender must be different drivers'' ver_vs_ver) = []
   \<and> middlePanel ver_vs_ver"
  using validation_gate [of ver_vs_ver "''Chaser and defender must be different drivers''"]
  by (simp add: ver_vs_ver_def initial_def truthy_str_def truthy_lap_def)

subsection \<open>Click-to-assign\<close>

text \<open>
  Claim C6.  A click on a standings row calls \<open>selectDriver\<close>: with no chaser assigned the
  clicked driver becomes chaser and the defender is untouched; otherwise, with no defender
  assigned, the driver becomes defender; otherwise the driver replaces the defender and
  the chaser stays.  With the standings A, B, C loaded and nobody selected, clicking A
  gives chaser A, then clicking B gives defender B, then clicking C leaves chaser A and
  gives defender C.
\<close>

theorem click_to_assign:
  "(\<not> truthy_str (chaserDriver s)
      \<longrightarrow> chaserDriver (selectDriver d s) = Some d
          \<and> defenderDriver (selectDriver d s) = defenderDriver s)
   \<and> (truthy_str (chaserDriver s) \<and> \<not> truthy_str (defenderDriver s)
      \<longrightarrow> chaserDriver (selectDriver d s) = chaserDriver s
          \<and> defenderDriver (selectDriver d s) = Some d)
   \<and> (truthy_str (chaserDriver s) \<and> truthy_str (defenderDriver s)
      \<longrightarrow> chaserDriver (selectDriver d s) = chaserDriver s
          \<and> defenderDriver (selectDriver d s) = Some d)
   \<and> standings (run (race_chosen @ [Deliver 0 (RStandings (Body (Some rows_ABC)))]) initial) = rows_ABC
   \<and> chaserDriver (run (race_chosen @ [Deliver 0 (RStandings (Body (Some rows_ABC)))]) initial) = None
   \<and> defenderDriver (run (race_chosen @ [Deliver 0 (RStandings (Body (Some rows_ABC)))]) initial) = None
   \<and> chaserDriver (run (race_chosen @ [Deliver 0 (RStandings (Body (Some rows_ABC))),
        DriverClick ''A'']) initial) = Some ''A''
   \<and> defenderDriver (run (race_chosen @ [Deliver 0 (RStandings (Body (Some rows_ABC))),
        DriverClick ''A'', DriverClick ''B'']) initial) = Some ''B''
   \<and> chaserDriver (run (race_chosen @ [Deliver 0 (RStandings (Body (Some rows_ABC))),
        DriverClick ''A'', DriverClick ''B'', DriverClick ''C'']) initial) = Some ''A''
   \<and> defenderDriver (run (race_chosen @ [Deliver 0 (RStandings (Body (Some rows_ABC))),
        DriverClick ''A'', DriverClick ''B'', DriverClick ''C'']) initial) = Some ''C''"
  by (simp add: helper_defs method_defs handler_defs sample_defs rows_ABC_def Let_def)

theorem click_to_assign_witness:
  "\<not> truthy_str (chaserDriver initial)
   \<and> chaserDriver (selectDriver ''A'' initial) = Some ''A''
   \<and> truthy_str (chaserDriver (selectDriver ''A'' initial))
   \<and> \<not> truthy_str (defenderDriver (selectDriver ''A'' initial))
   \<and> defenderDriver (selectDriver ''B'' (selectDriver ''A'' initial)) = Some ''B''
   \<and> truthy_str (chaserDriver (selectDriver ''B'' (selectDriver ''A'' initial)))
   \<and> truthy_str (defenderDriver (selectDriver ''B'' (selectDriver ''A'' initial)))
   \<and> chaserDriver (selectDriver ''C'' (selectDriver ''B'' (selectDriver ''A'' initial))) = Some ''A''
   \<and> defenderDriver (selectDriver ''C'' (selectDriver ''B'' (selectDriver ''A'' initial))) = Some ''C''"
  using click_to_assign [of initial "''A''"]
    click_to_assign [of "selectDriver ''A'' initial" "''B''"]
    click_to_assign [of "selectDriver ''B'' (selectDriver ''A'' initial)" "''C''"]
  by (simp add: helper_defs initial_def Let_def)

subsection \<open>Default lap\<close>




lemma sanitize_min: "sanitize mn mx mn = mn"
  by (simp add: sanitize_def)

lemma slider_assignments:
  "set_lapSlider_value a (set_lapSlider_max b (set_lapSlider_min a s))
     = s\<lparr>lapSlider_min := a, lapSlider_max := b, lapSlider_value := a\<rparr>"
  by (simp add: set_lapSlider_value_def set_lapSlider_max_def set_lapSlider_min_def
      resanitize_def sanitize_min)

lemma loadLaps_resume_valid:
  assumes "filter (\<lambda>lap. 1 \<le> lap) laps = v # vs"
  shows "loadLaps_resume y r (Body (Some laps)) s =
           loadStandings y r (parseInt_value (max 1 (fold min vs v)))
             ((hideLoadingInPanel s)
                \<lparr>lapSlider_min := max 1 (fold min vs v), lapSlider_max := fold max vs v,
                 lapSlider_value := max 1 (fold min vs v), lapSlider_disabled := False,
                 currentLap := parseInt_value (max 1 (fold min vs v)),
                 lapValue_text := parseInt_value (max 1 (fold min vs v)),
                 currentLapDisplay_text := parseInt_value (max 1 (fold min vs v))\<rparr>)"
proof (cases laps)
  case Nil
  with assms show ?thesis by simp
next
  case (Cons l ls)
  with assms have "filter (\<lambda>lap. 1 \<le> lap) (l # ls) = v # vs" by simp
  then show ?thesis
    unfolding loadLaps_resume_def Cons
    by (simp add: Let_def slider_assignments del: filter.simps)
qed

lemma parseInt_value_truthy: "1 \<le> n \<Longrightarrow> truthy_lap (parseInt_value n)"
  by (simp add: parseInt_value_def parseInt_def truthy_lap_def)




subsection \<open>The predict action after the request settles\<close>

text \<open>
  Claim C9 as stated fails for the message on a non-2xx response.  When such a response
  has a body that is \<open>null\<close>, or one that is no JSON at all, there is no server-supplied
  text, yet the message is not "Prediction failed": \<open>data.error\<close> or \<open>json()\<close> throws and
  the \<open>catch\<close> block shows "Failed to get prediction".  (The button is idle all the same.)
\<close>

theorem predict_error_text_counterexample:
  "pending predict_in_flight
     = [ReqPredict (Some ''2023'') (Some ''1'') (LapNum 1) (Some ''VER'') (Some ''HAM'')]
   \<and> errors (step (Deliver 0 (RPredict (PJson False None))) predict_in_flight)
       = [''Failed to get prediction'']
   \<and> errors (step (Deliver 0 (RPredict (PUnparsable False))) predict_in_flight)
       = [''Failed to get prediction'']
   \<and> ''Failed to get prediction'' \<noteq> ''Prediction failed''"
  by (simp add: predict_in_flight_def helper_defs method_defs handler_defs sample_defs Let_def)

text \<open>
  Claim C9, amended.  However the predict request settles, \<open>hideLoading\<close> has run when
  \<open>predictUndercut\<close> finishes: the button is without its \<open>loading\<close> class, enabled, and
  labelled "Predict Undercut", whereas it was busy and disabled from the moment the request
  was issued.  On a page with a middle panel the message shown is:
  \<^item> on a non-2xx response whose body is an object, the body's \<open>error\<close> text, or "Prediction
    failed" when that is missing or empty;
  \<^item> on a rejected request, on a body that cannot be parsed and on a \<open>null\<close> body, whatever
    the status, "Failed to get prediction";
  \<^item> on a 2xx response whose body is an object, none: the messages stay as they were and
    the prediction result is shown.
  The same holds when the response is delivered to a predict request in flight, which
  then is in flight no longer.
\<close>

theorem predict_never_stays_busy:
  "\<not> predictBtn_loading (predictUndercut_resume rep s)
   \<and> \<not> predictBtn_disabled (predictUndercut_resume rep s)
   \<and> predictBtn_html (predictUndercut_resume rep s) = BtnText ''Predict Undercut''
   \<and> (fst (validateSelection s) \<longrightarrow>
        predictBtn_loading (predictUndercut s) \<and> predictBtn_disabled (predictUndercut s)
        \<and> predictBtn_html (predictUndercut s) = BtnSpinner)
   \<and> (middlePanel s \<and> error d = Some e \<and> e \<noteq> [] \<longrightarrow>
        errors (predictUndercut_resume (PJson False (Some d)) s) = [e])
   \<and> (middlePanel s \<and> (error d = None \<or> error d = Some []) \<longrightarrow>
        errors (predictUndercut_resume (PJson False (Some d)) s) = [''Prediction failed''])
   \<and> (middlePanel s \<longrightarrow>
        errors (predictUndercut_resume PRejected s) = [''Failed to get prediction'']
      \<and> errors (predictUndercut_resume (PUnparsable ok) s) = [''Failed to get prediction'']
      \<and> errors (predictUndercut_resume (PJson ok None) s) = [''Failed to get prediction''])
   \<and> errors (predictUndercut_resume (PJson True (Some d)) s) = errors s
   \<and> predictionResult_shown (predictUndercut_resume (PJson True (Some d)) s)
   \<and> (n < length (pending s) \<and> pending s ! n = ReqPredict y r l c df \<longrightarrow>
        \<not> predictBtn_loading (step (Deliver n (RPredict rep)) s)
        \<and> \<not> predictBtn_disabled (step (Deliver n (RPredict rep)) s)
        \<and> predictBtn_html (step (Deliver n (RPredict rep)) s) = BtnText ''Predict Undercut''
        \<and> pending (step (Deliver n (RPredict rep)) s)
            = take n (pending s) @ drop (Suc n) (pending s))"
proof -
  have idle: "\<not> predictBtn_loading (predictUndercut_resume rep t)
      \<and> \<not> predictBtn_disabled (predictUndercut_resume rep t)
      \<and> predictBtn_html (predictUndercut_resume rep t) = BtnText ''Predict Undercut''" for t
    by (simp add: predictUndercut_resume_def hideLoading_def showError_def displayPrediction_def
        Let_def split: predict_reply.split option.split)
  have pend: "pending (predictUndercut_resume rep t) = pending t" for t
    by (simp add: predictUndercut_resume_def hideLoading_def showError_def displayPrediction_def
        Let_def split: predict_reply.split option.split)
  have busy: "fst (validateSelection s) \<longrightarrow>
        predictBtn_loading (predictUndercut s) \<and> predictBtn_disabled (predictUndercut s)
        \<and> predictBtn_html (predictUndercut s) = BtnSpinner"
    by (simp add: predictUndercut_def validateSelection_def showLoading_def fetch_def)
  have msg1: "middlePanel s \<and> error d = Some e \<and> e \<noteq> [] \<longrightarrow>
        errors (predictUndercut_resume (PJson False (Some d)) s) = [e]"
    by (simp add: predictUndercut_resume_def hideLoading_def showError_def Let_def)
  have msg2: "middlePanel s \<and> (error d = None \<or> error d = Some []) \<longrightarrow>
        errors (predictUndercut_resume (PJson False (Some d)) s) = [''Prediction failed'']"
    by (auto simp add: predictUndercut_resume_def hideLoading_def showError_def Let_def)
  have msg3: "middlePanel s \<longrightarrow>
        errors (predictUndercut_resume PRejected s) = [''Failed to get prediction'']
      \<and> errors (predictUndercut_resume (PUnparsable ok) s) = [''Failed to get prediction'']
      \<and> errors (predictUndercut_resume (PJson ok None) s) = [''Failed to get prediction'']"
    by (simp add: predictUndercut_resume_def hideLoading_def showError_def)
  have shown: "errors (predictUndercut_resume (PJson True (Some d)) s) = errors s
      \<and> predictionResult_shown (predictUndercut_resume (PJson True (Some d)) s)"
    by (simp add: predictUndercut_resume_def hideLoading_def displayPrediction_def Let_def)
  have dl: "deliver n (RPredict rep) s
        = predictUndercut_resume rep (s\<lparr>pending := take n (pending s) @ drop (Suc n) (pending s)\<rparr>)"
    if "n < length (pending s)" "pending s ! n = ReqPredict y r l c df"
    using that by (simp add: deliver_def)
  show ?thesis
    using idle [of s] busy msg1 msg2 msg3 shown
      idle [of "s\<lparr>pending := take n (pending s) @ drop (Suc n) (pending s)\<rparr>"]
      pend [of "s\<lparr>pending := take n (pending s) @ drop (Suc n) (pending s)\<rparr>"]
    by (simp add: dl)
qed

theorem predict_never_stays_busy_witness:
  "0 < length (pending predict_in_flight)
   \<and> pending predict_in_flight ! 0
       = ReqPredict (Some ''2023'') (Some ''1'') (LapNum 1) (Some ''VER'') (Some ''HAM'')
   \<and> predictBtn_loading predict_in_flight
   \<and> middlePanel predict_in_flight
   \<and> error (likely\<lparr>error := Some ''No pit data''\<rparr>) = Some ''No pit data''
   \<and> \<not> predictBtn_loading
         (step (Deliver 0 (RPredict (PJson False (Some (likely\<lparr>error := Some ''No pit data''\<rparr>)))))
            predict_in_flight)
   \<and> \<not> predictBtn_disabled
         (step (Deliver 0 (RPredict (PJson False (Some (likely\<lparr>error := Some ''No pit data''\<rparr>)))))
            predict_in_flight)
   \<and> pending (step (Deliver 0 (RPredict (PJson False (Some (likely\<lparr>error := Some ''No pit data''\<rparr>)))))
            predict_in_flight) = []
   \<and> errors (predictUndercut_resume (PJson False (Some (likely\<lparr>error := Some ''No pit data''\<rparr>)))
               predict_in_flight) = [''No pit data'']
   \<and> errors (predictUndercut_resume PRejected predict_in_flight) = [''Failed to get prediction'']"
proof -
  have p: "pending predict_in_flight
             = [ReqPredict (Some ''2023'') (Some ''1'') (LapNum 1) (Some ''VER'') (Some ''HAM'')]"
    by (simp add: predict_in_flight_def helper_defs method_defs handler_defs sample_defs Let_def)
  have m: "middlePanel predict_in_flight"
    by (simp add: predict_in_flight_def helper_defs method_defs handler_defs sample_defs Let_def)
  have b: "predictBtn_loading predict_in_flight"
    by (simp add: predict_in_flight_def helper_defs method_defs handler_defs sample_defs Let_def)
  have e: "error (likely\<lparr>error := Some ''No pit data''\<rparr>) = Some ''No pit data''"
    by simp
  show ?thesis
    using predict_never_stays_busy
      [of "PJson False (Some (likely\<lparr>error := Some ''No pit data''\<rparr>))" predict_in_flight
          "likely\<lparr>error := Some ''No pit data''\<rparr>" "''No pit data''" False
          0 "Some ''2023''" "Some ''1''" "LapNum 1" "Some ''VER''" "Some ''HAM''"]
      p m b e
    by simp
qed

subsection \<open>Eligibility of the predict action\<close>

text \<open>
  Claim C10.  After a change of either pick-list and after a click on a standings row,
  the predict button is disabled exactly when chaser or defender is empty; the two being
  the same driver does not disable it.  That rule is applied by \<open>validateSelection\<close> when
  the predict action is invoked: with year, round and lap set and the same driver in both
  roles, validation fails and no request is issued.
\<close>

theorem predict_enabled_iff_both_drivers:
  "predictBtn_disabled (step (ChaserChange v) s)
     = (\<not> (truthy_str (chaserDriver (step (ChaserChange v) s))
           \<and> truthy_str (defenderDriver (step (ChaserChange v) s))))
   \<and> predictBtn_disabled (step (DefenderChange v) s)
     = (\<not> (truthy_str (chaserDriver (step (DefenderChange v) s))
           \<and> truthy_str (defenderDriver (step (DefenderChange v) s))))
   \<and> predictBtn_disabled (step (DriverClick v) s)
     = (\<not> (truthy_str (chaserDriver (step (DriverClick v) s))
           \<and> truthy_str (defenderDriver (step (DriverClick v) s))))
   \<and> chaserDriver (step (ChaserChange v) s) = Some v
   \<and> defenderDriver (step (ChaserChange v) s) = defenderDriver s
   \<and> defenderDriver (step (DefenderChange v) s) = Some v
   \<and> chaserDriver (step (DefenderChange v) s) = chaserDriver s
   \<and> truthy_str (Some v) = (v \<noteq> [])
   \<and> \<not> truthy_str None
   \<and> (v \<noteq> [] \<longrightarrow>
        \<not> predictBtn_disabled (step (DefenderChange v) (step (ChaserChange v) s))
        \<and> chaserDriver (step (DefenderChange v) (step (ChaserChange v) s)) = Some v
        \<and> defenderDriver (step (DefenderChange v) (step (ChaserChange v) s)) = Some v)
   \<and> (v \<noteq> [] \<and> chaserDriver s = Some v \<and> defenderDriver s = Some v
        \<longrightarrow> \<not> predictBtn_disabled (step (DriverClick v) s)
            \<and> chaserDriver (step (DriverClick v) s) = Some v
            \<and> defenderDriver (step (DriverClick v) s) = Some v)
   \<and> (truthy_str (currentYear s) \<and> truthy_str (currentRound s) \<and> truthy_lap (currentLap s)
        \<and> truthy_str (chaserDriver s) \<and> chaserDriver s = defenderDriver s
        \<longrightarrow> \<not> fst (validateSelection s) \<and> issued (predictUndercut s) = issued s)"
  by (simp add: on_chaserSelect_change_def on_defenderSelect_change_def selectDriver_def
      updateSelectedDrivers_def updateStandingsList_def truthy_str_def Let_def
      validateSelection_def predictUndercut_def showError_def)

theorem predict_enabled_iff_both_drivers_witness:
  "\<not> predictBtn_disabled (step (DefenderChange ''VER'') (step (ChaserChange ''VER'') initial))
   \<and> chaserDriver (step (DefenderChange ''VER'') (step (ChaserChange ''VER'') initial)) = Some ''VER''
   \<and> defenderDriver (step (DefenderChange ''VER'') (step (ChaserChange ''VER'') initial)) = Some ''VER''
   \<and> predictBtn_disabled (step (ChaserChange ''VER'') initial)
   \<and> truthy_str (currentYear ver_vs_ver) \<and> truthy_str (currentRound ver_vs_ver)
   \<and> truthy_lap (currentLap ver_vs_ver) \<and> truthy_str (chaserDriver ver_vs_ver)
   \<and> chaserDriver ver_vs_ver = defenderDriver ver_vs_ver
   \<and> \<not> fst (validateSelection ver_vs_ver)
   \<and> issued (predictUndercut ver_vs_ver) = []"
  using predict_enabled_iff_both_drivers [of "''VER''" initial]
    predict_enabled_iff_both_drivers [of "''VER''" ver_vs_ver]
  by (simp add: ver_vs_ver_def initial_def truthy_str_def truthy_lap_def)

subsection \<open>Empty lap sets\<close>

text \<open>
  Claim C8 as stated fails: after a first race has loaded and enabled the slider, the
  lap set of a second race arrives empty (or without a lap above 0); the matching error is
  shown, yet the slider is still enabled, because \<open>loadLaps\<close> never disables it.
\<close>

theorem lap_control_left_disabled_counterexample:
  "errors (run second_race_no_laps initial) = [''No pit stop data available for this race'']
   \<and> \<not> lapSlider_disabled (run second_race_no_laps initial)
   \<and> errors (run second_race_no_valid_laps initial)
       = [''No valid lap data available (all laps are below 1)'']
   \<and> \<not> lapSlider_disabled (run second_race_no_valid_laps initial)"
  by (simp add: helper_defs method_defs handler_defs sample_defs
      second_race_no_laps_def second_race_no_valid_laps_def Let_def)

text \<open>
  Claim C8, amended.  \<open>loadLaps\<close> tells its two empty-set failures apart: a lap set that
  is not empty but has no lap \<open>\<ge> 1\<close> gives "No valid lap data available (all laps are
  below 1)", an empty or missing lap set gives "No pit stop data available for this race".
  In both cases the lap control is left as it was (its disabled flag, range and value are
  unchanged, so it stays disabled if it was disabled before the load), the current lap is
  unchanged, and no standings fetch is issued.  Loaded on a fresh page, the laps
  -3, -1, 0 give the first message and the slider stays disabled.
\<close>

theorem loadLaps_empty_sets:
  "(middlePanel s \<and> laps \<noteq> [] \<and> filter (\<lambda>lap. 1 \<le> lap) laps = [] \<longrightarrow>
      errors (loadLaps_resume y r (Body (Some laps)) s)
        = [''No valid lap data available (all laps are below 1)''])
   \<and> (middlePanel s \<longrightarrow>
        errors (loadLaps_resume y r (Body (Some [])) s)
          = [''No pit stop data available for this race'']
      \<and> errors (loadLaps_resume y r (Body None) s)
          = [''No pit stop data available for this race''])
   \<and> (filter (\<lambda>lap. 1 \<le> lap) laps = [] \<longrightarrow>
        lapSlider_disabled (loadLaps_resume y r (Body (Some laps)) s) = lapSlider_disabled s
      \<and> lapSlider_min (loadLaps_resume y r (Body (Some laps)) s) = lapSlider_min s
      \<and> lapSlider_max (loadLaps_resume y r (Body (Some laps)) s) = lapSlider_max s
      \<and> lapSlider_value (loadLaps_resume y r (Body (Some laps)) s) = lapSlider_value s
      \<and> currentLap (loadLaps_resume y r (Body (Some laps)) s) = currentLap s
      \<and> issued (loadLaps_resume y r (Body (Some laps)) s) = issued s
      \<and> pending (loadLaps_resume y r (Body (Some laps)) s) = pending s)
   \<and> lapSlider_disabled (loadLaps_resume y r (Body None) s) = lapSlider_disabled s
   \<and> lapSlider_min (loadLaps_resume y r (Body None) s) = lapSlider_min s
   \<and> lapSlider_max (loadLaps_resume y r (Body None) s) = lapSlider_max s
   \<and> lapSlider_value (loadLaps_resume y r (Body None) s) = lapSlider_value s
   \<and> currentLap (loadLaps_resume y r (Body None) s) = currentLap s
   \<and> issued (loadLaps_resume y r (Body None) s) = issued s
   \<and> pending (loadLaps_resume y r (Body None) s) = pending s
   \<and> errors (loadLaps_resume y r (Body (Some [- 3, - 1, 0])) initial)
       = [''No valid lap data available (all laps are below 1)'']
   \<and> lapSlider_disabled (loadLaps_resume y r (Body (Some [- 3, - 1, 0])) initial)
   \<and> issued (loadLaps_resume y r (Body (Some [- 3, - 1, 0])) initial) = []"
  by (cases laps)
    (simp_all add: loadLaps_resume_def hideLoadingInPanel_def showError_def initial_def Let_def)

theorem loadLaps_empty_sets_witness:
  "middlePanel initial \<and> [- 3, - 1, 0 :: int] \<noteq> []
   \<and> filter (\<lambda>lap. 1 \<le> lap) [- 3, - 1, 0 :: int] = []
   \<and> errors (loadLaps_resume (Some ''2023'') (Some ''1'') (Body (Some [- 3, - 1, 0])) initial)
       = [''No valid lap data available (all laps are below 1)'']
   \<and> errors (loadLaps_resume (Some ''2023'') (Some ''1'') (Body (Some [])) initial)
       = [''No pit stop data available for this race'']
   \<and> lapSlider_disabled (loadLaps_resume (Some ''2023'') (Some ''1'') (Body (Some [- 3, - 1, 0])) initial)
       = lapSlider_disabled initial
   \<and> issued (loadLaps_resume (Some ''2023'') (Some ''1'') (Body (Some [- 3, - 1, 0])) initial)
       = issued initial"
proof -
  have m: "middlePanel initial" by (simp add: initial_def)
  have f: "filter (\<lambda>lap. 1 \<le> lap) [- 3, - 1, 0 :: int] = []" by simp
  show ?thesis
    using loadLaps_empty_sets [of initial "[- 3, - 1, 0]" "Some ''2023''" "Some ''1''"] m f
    by simp
qed

subsection \<open>Failure paths of the read operations\<close>

text \<open>
  Claim C4 as stated fails at two places.  When the standings response carries an empty
  list, \<open>loadStandings\<close> shows no error message: it writes "No standings data available"
  into the standings panel instead.  And when the events request is rejected,
  \<open>loadEvents\<close> shows its error but the race select still reads "Loading..." and
  stays disabled.
\<close>

theorem read_failure_paths_counterexample:
  "errors (run standings_empty initial) = []
   \<and> standingsList_html (run standings_empty initial) = NoStandingsData
   \<and> eventSelect_options (run events_rejected initial) = [EventPlaceholder ''Loading...'']
   \<and> eventSelect_disabled (run events_rejected initial)
   \<and> errors (run events_rejected initial) = [''Failed to load races'']"
  by (simp add: helper_defs method_defs handler_defs sample_defs
      standings_empty_def events_rejected_def Let_def)

text \<open>
  Claim C4, amended.  On a page with a middle panel:
  \<^item> \<open>loadLaps\<close> and \<open>loadStandings\<close>, on a rejected request or a \<open>null\<close> body, remove
    the overlay and the spinner from the standings panel and show exactly one message,
    which replaces whatever messages were shown;
  \<^item> \<open>loadLaps\<close> does the same on an empty or missing lap set and on a lap set without a
    lap \<open>\<ge> 1\<close>;
  \<^item> \<open>loadStandings\<close> on an empty or missing standings list removes overlay and spinner,
    shows no error message (the messages already shown stay) and puts "No standings data
    available" into the panel;
  \<^item> \<open>loadEvents\<close> shows exactly one message on every failure; on a \<open>null\<close> body and on
    an empty or missing events list the "Loading..." entry of the race select is replaced
    by "Select Race".
  Every such path ends in a state: each exception raised inside a \<open>try\<close> block is caught
  by its \<open>catch\<close> block.  What \<open>loadEvents\<close> leaves in the race select when the
  request is rejected is not part of this statement.
\<close>

theorem read_failure_paths:
  "(middlePanel s \<longrightarrow>
      errors (loadLaps_resume y r Rejected s) = [''Failed to load lap data'']
    \<and> errors (loadLaps_resume y r NullBody s) = [''Failed to load lap data'']
    \<and> errors (loadLaps_resume y r (Body None) s) = [''No pit stop data available for this race'']
    \<and> errors (loadLaps_resume y r (Body (Some [])) s)
        = [''No pit stop data available for this race'']
    \<and> errors (loadStandings_resume Rejected s) = [''Failed to load driver standings'']
    \<and> errors (loadStandings_resume NullBody s) = [''Failed to load driver standings'']
    \<and> errors (loadEvents_resume Rejected s) = [''Failed to load races'']
    \<and> errors (loadEvents_resume NullBody s) = [''Failed to load races'']
    \<and> errors (loadEvents_resume (Body None) s) = [''No races found for this year'']
    \<and> errors (loadEvents_resume (Body (Some [])) s) = [''No races found for this year''])
   \<and> (middlePanel s \<and> laps \<noteq> [] \<and> filter (\<lambda>lap. 1 \<le> lap) laps = [] \<longrightarrow>
        errors (loadLaps_resume y r (Body (Some laps)) s)
          = [''No valid lap data available (all laps are below 1)''])
   \<and> (filter (\<lambda>lap. 1 \<le> lap) laps = [] \<longrightarrow>
        \<not> standingsList_overlay (loadLaps_resume y r (Body (Some laps)) s)
      \<and> \<not> standingsList_spinner (loadLaps_resume y r (Body (Some laps)) s))
   \<and> \<not> standingsList_overlay (loadLaps_resume y r Rejected s)
   \<and> \<not> standingsList_spinner (loadLaps_resume y r Rejected s)
   \<and> \<not> standingsList_overlay (loadLaps_resume y r NullBody s)
   \<and> \<not> standingsList_spinner (loadLaps_resume y r NullBody s)
   \<and> \<not> standingsList_overlay (loadLaps_resume y r (Body None) s)
   \<and> \<not> standingsList_spinner (loadLaps_resume y r (Body None) s)
   \<and> \<not> standingsList_overlay (loadStandings_resume rep s)
   \<and> \<not> standingsList_spinner (loadStandings_resume rep s)
   \<and> errors (loadStandings_resume (Body None) s) = errors s
   \<and> errors (loadStandings_resume (Body (Some [])) s) = errors s
   \<and> standingsList_html (loadStandings_resume (Body None) s) = NoStandingsData
   \<and> standingsList_html (loadStandings_resume (Body (Some [])) s) = NoStandingsData
   \<and> eventSelect_options (loadEvents_resume NullBody s) = [EventPlaceholder ''Select Race'']
   \<and> eventSelect_options (loadEvents_resume (Body None) s) = [EventPlaceholder ''Select Race'']
   \<and> eventSelect_options (loadEvents_resume (Body (Some [])) s) = [EventPlaceholder ''Select Race'']"
proof -
  have laps_part:
    "(middlePanel s \<longrightarrow>
        errors (loadLaps_resume y r Rejected s) = [''Failed to load lap data'']
      \<and> errors (loadLaps_resume y r NullBody s) = [''Failed to load lap data'']
      \<and> errors (loadLaps_resume y r (Body None) s) = [''No pit stop data available for this race'']
      \<and> errors (loadLaps_resume y r (Body (Some [])) s)
          = [''No pit stop data available for this race''])
     \<and> (middlePanel s \<and> laps \<noteq> [] \<and> filter (\<lambda>lap. 1 \<le> lap) laps = [] \<longrightarrow>
          errors (loadLaps_resume y r (Body (Some laps)) s)
            = [''No valid lap data available (all laps are below 1)''])
     \<and> (filter (\<lambda>lap. 1 \<le> lap) laps = [] \<longrightarrow>
          \<not> standingsList_overlay (loadLaps_resume y r (Body (Some laps)) s)
        \<and> \<not> standingsList_spinner (loadLaps_resume y r (Body (Some laps)) s))
     \<and> \<not> standingsList_overlay (loadLaps_resume y r Rejected s)
     \<and> \<not> standingsList_spinner (loadLaps_resume y r Rejected s)
     \<and> \<not> standingsList_overlay (loadLaps_resume y r NullBody s)
     \<and> \<not> standingsList_spinner (loadLaps_resume y r NullBody s)
     \<and> \<not> standingsList_overlay (loadLaps_resume y r (Body None) s)
     \<and> \<not> standingsList_spinner (loadLaps_resume y r (Body None) s)"
    by (cases laps)
      (simp_all add: loadLaps_resume_def hideLoadingInPanel_def showError_def Let_def)
  have standings_fail:
    "middlePanel s \<longrightarrow>
        errors (loadStandings_resume Rejected s) = [''Failed to load driver standings'']
      \<and> errors (loadStandings_resume NullBody s) = [''Failed to load driver standings'']"
    by (simp add: loadStandings_resume_def hideLoadingInPanel_def showError_def)
  have standings_clear:
    "\<not> standingsList_overlay (loadStandings_resume rep s)
     \<and> \<not> standingsList_spinner (loadStandings_resume rep s)"
    by (cases rep)
      (simp_all add: loadStandings_resume_def hideLoadingInPanel_def showError_def
        updateStandingsList_def updateDriverSelects_def Let_def)
  have standings_empty:
    "errors (loadStandings_resume (Body None) s) = errors s
     \<and> errors (loadStandings_resume (Body (Some [])) s) = errors s
     \<and> standingsList_html (loadStandings_resume (Body None) s) = NoStandingsData
     \<and> standingsList_html (loadStandings_resume (Body (Some [])) s) = NoStandingsData"
    by (simp add: loadStandings_resume_def hideLoadingInPanel_def
        updateStandingsList_def updateDriverSelects_def Let_def)
  have events_part:
    "(middlePanel s \<longrightarrow>
        errors (loadEvents_resume Rejected s) = [''Failed to load races'']
      \<and> errors (loadEvents_resume NullBody s) = [''Failed to load races'']
      \<and> errors (loadEvents_resume (Body None) s) = [''No races found for this year'']
      \<and> errors (loadEvents_resume (Body (Some [])) s) = [''No races found for this year''])
     \<and> eventSelect_options (loadEvents_resume NullBody s) = [EventPlaceholder ''Select Race'']
     \<and> eventSelect_options (loadEvents_resume (Body None) s) = [EventPlaceholder ''Select Race'']
     \<and> eventSelect_options (loadEvents_resume (Body (Some [])) s) = [EventPlaceholder ''Select Race'']"
    by (simp add: loadEvents_resume_def showError_def clearSelections_def slider_defs Let_def)
  from laps_part standings_fail standings_clear standings_empty events_part
  show ?thesis by blast
qed

theorem read_failure_paths_witness:
  "middlePanel initial \<and> [0 :: int] \<noteq> [] \<and> filter (\<lambda>lap. 1 \<le> lap) [0 :: int] = []
   \<and> errors (loadLaps_resume None None (Body (Some [0])) initial)
       = [''No valid lap data available (all laps are below 1)'']
   \<and> errors (loadLaps_resume None None Rejected initial) = [''Failed to load lap data'']
   \<and> errors (loadStandings_resume Rejected initial) = [''Failed to load driver standings'']
   \<and> errors (loadEvents_resume (Body (Some [])) initial) = [''No races found for this year'']
   \<and> \<not> standingsList_overlay (loadLaps_resume None None (Body (Some [0])) initial)"
proof -
  have m: "middlePanel initial" by (simp add: initial_def)
  have f: "filter (\<lambda>lap. 1 \<le> lap) [0 :: int] = []" by simp
  show ?thesis
    using read_failure_paths [of initial None None "[0]" Rejected] m f
    by simp
qed

subsection \<open>Stale standings responses\<close>

text \<open>
  Claim C2 as stated fails: \<open>loadStandings\<close> carries no tag and makes no check when it
  resumes.  The slider goes to lap 3 and then to lap 5; both requests are in flight.  The
  response for lap 5 arrives and is stored; then the response for lap 3 arrives and
  replaces it, while lap 5 is still the selected lap.
\<close>

theorem stale_standings_discarded_counterexample:
  "pending (run laps_3_then_5 initial)
     = [ReqStandings (Some ''2023'') (Some ''1'') (LapNum 3),
        ReqStandings (Some ''2023'') (Some ''1'') (LapNum 5)]
   \<and> standings (run fresh_arrival initial) = rows_lap5
   \<and> currentLap (run stale_arrival initial) = LapNum 5
   \<and> standings (run stale_arrival initial) = rows_lap3
   \<and> rows_lap3 \<noteq> rows_lap5"
  by (simp add: helper_defs method_defs handler_defs sample_defs laps_3_then_5_def
      fresh_arrival_def stale_arrival_def rows_lap3_def rows_lap5_def Let_def)

text \<open>
  Claim C2, amended.  A standings response is applied when it arrives, whatever lap it
  was requested for and whatever lap is selected by then: the stored standings become
  the list the response carries, or the empty list if it carries none.  Only a rejected
  request or a \<open>null\<close> body leaves the stored standings as they were.
\<close>

theorem standings_last_arrival_wins:
  "standings (loadStandings_resume (Body (Some rows)) s) = rows
   \<and> standings (loadStandings_resume (Body None) s) = []
   \<and> standings (loadStandings_resume Rejected s) = standings s
   \<and> standings (loadStandings_resume NullBody s) = standings s
   \<and> currentLap (loadStandings_resume rep s) = currentLap s
   \<and> (n < length (pending s) \<and> pending s ! n = ReqStandings y r l \<longrightarrow>
        standings (step (Deliver n (RStandings (Body (Some rows)))) s) = rows
      \<and> currentLap (step (Deliver n (RStandings (Body (Some rows)))) s) = currentLap s)"
proof -
  have st: "standings (loadStandings_resume (Body (Some rows)) t) = rows
      \<and> standings (loadStandings_resume (Body None) t) = []
      \<and> standings (loadStandings_resume Rejected t) = standings t
      \<and> standings (loadStandings_resume NullBody t) = standings t" for t
    by (simp add: loadStandings_resume_def hideLoadingInPanel_def showError_def
        updateStandingsList_def updateDriverSelects_def Let_def)
  have lap: "currentLap (loadStandings_resume q t) = currentLap t" for q t
    by (cases q)
      (simp_all add: loadStandings_resume_def hideLoadingInPanel_def showError_def
        updateStandingsList_def updateDriverSelects_def Let_def)
  have dl: "deliver n (RStandings (Body (Some rows))) s
        = loadStandings_resume (Body (Some rows))
            (s\<lparr>pending := take n (pending s) @ drop (Suc n) (pending s)\<rparr>)"
    if "n < length (pending s)" "pending s ! n = ReqStandings y r l"
    using that by (simp add: deliver_def)
  show ?thesis
    using st [of s]
      st [of "s\<lparr>pending := take n (pending s) @ drop (Suc n) (pending s)\<rparr>"]
    by (simp add: dl lap)
qed

theorem standings_last_arrival_wins_witness:
  "0 < length (pending two_in_flight)
   \<and> pending two_in_flight ! 0 = ReqStandings (Some ''2023'') (Some ''1'') (LapNum 3)
   \<and> currentLap two_in_flight = LapNum 5
   \<and> standings (step (Deliver 0 (RStandings (Body (Some rows_lap3)))) two_in_flight) = rows_lap3
   \<and> currentLap (step (Deliver 0 (RStandings (Body (Some rows_lap3)))) two_in_flight) = LapNum 5"
proof -
  have p: "pending two_in_flight
             = [ReqStandings (Some ''2023'') (Some ''1'') (LapNum 3),
                ReqStandings (Some ''2023'') (Some ''1'') (LapNum 5)]"
    by (simp add: two_in_flight_def laps_3_then_5_def helper_defs method_defs handler_defs
        sample_defs Let_def)
  have l: "currentLap two_in_flight = LapNum 5"
    by (simp add: two_in_flight_def laps_3_then_5_def helper_defs method_defs handler_defs
        sample_defs Let_def)
  show ?thesis
    using standings_last_arrival_wins
      [of rows_lap3 two_in_flight Rejected 0 "Some ''2023''" "Some ''1''" "LapNum 3"] p l
    by simp
qed

subsection \<open>What a selection change clears\<close>

text \<open>
  Claim C1 as stated fails.  After a session with VER against HAM and a prediction on
  screen: choosing another race, and receiving its laps, leaves chaser, defender and the
  prediction in place; so does choosing another lap and receiving its standings; and
  choosing another year, and receiving its races, leaves the round and the stored
  standings in place.
\<close>

theorem cascade_clears_downstream_counterexample:
  "chaserDriver (run race_rechosen initial) = Some ''VER''
   \<and> predictionResult_shown (run race_rechosen initial)
   \<and> defenderDriver (run lap_rechosen initial) = Some ''HAM''
   \<and> predictionResult_shown (run lap_rechosen initial)
   \<and> currentRound (run year_rechosen initial) = Some ''1''
   \<and> standings (run year_rechosen initial) = rows_lap1"
  by (simp add: helper_defs method_defs handler_defs sample_defs race_rechosen_def
      lap_rechosen_def year_rechosen_def rows_lap3_def Let_def)

text \<open>
  Claim C1, amended.  Only the year-change cascade discards downstream state, and it
  does so when the events response has been parsed to an object: \<open>clearSelections\<close> then
  clears lap, chaser and defender, hides the prediction result, disables the lap slider
  and resets the standings panel to its prompt, while the round and the stored standings
  list stay as they were.  The year-change handler itself clears nothing.  A race change
  and a lap change clear nothing either: chaser, defender, the visibility of the
  prediction result and the stored standings are unchanged by the handler, and chaser,
  defender and the prediction result are unchanged by the laps or standings response that
  follows.  (The lap is replaced by what the slider reports on a lap change.)
\<close>

theorem cascade_as_coded:
  "currentLap (loadEvents_resume (Body evs) s) = LapNull
   \<and> chaserDriver (loadEvents_resume (Body evs) s) = None
   \<and> defenderDriver (loadEvents_resume (Body evs) s) = None
   \<and> \<not> predictionResult_shown (loadEvents_resume (Body evs) s)
   \<and> lapSlider_disabled (loadEvents_resume (Body evs) s)
   \<and> standingsList_html (loadEvents_resume (Body evs) s) = SelectRacePrompt
   \<and> currentRound (loadEvents_resume (Body evs) s) = currentRound s
   \<and> standings (loadEvents_resume (Body evs) s) = standings s
   \<and> currentRound (step (YearChange v) s) = currentRound s
   \<and> currentLap (step (YearChange v) s) = currentLap s
   \<and> chaserDriver (step (YearChange v) s) = chaserDriver s
   \<and> defenderDriver (step (YearChange v) s) = defenderDriver s
   \<and> standings (step (YearChange v) s) = standings s
   \<and> predictionResult_shown (step (YearChange v) s) = predictionResult_shown s
   \<and> currentLap (step (RaceChange v) s) = currentLap s
   \<and> chaserDriver (step (RaceChange v) s) = chaserDriver s
   \<and> defenderDriver (step (RaceChange v) s) = defenderDriver s
   \<and> standings (step (RaceChange v) s) = standings s
   \<and> predictionResult_shown (step (RaceChange v) s) = predictionResult_shown s
   \<and> chaserDriver (loadLaps_resume y r lrep s) = chaserDriver s
   \<and> defenderDriver (loadLaps_resume y r lrep s) = defenderDriver s
   \<and> standings (loadLaps_resume y r lrep s) = standings s
   \<and> predictionResult_shown (loadLaps_resume y r lrep s) = predictionResult_shown s
   \<and> currentLap (step (LapInput w) s) = parseInt w
   \<and> chaserDriver (step (LapInput w) s) = chaserDriver s
   \<and> defenderDriver (step (LapInput w) s) = defenderDriver s
   \<and> standings (step (LapInput w) s) = standings s
   \<and> predictionResult_shown (step (LapInput w) s) = predictionResult_shown s
   \<and> chaserDriver (loadStandings_resume srep s) = chaserDriver s
   \<and> defenderDriver (loadStandings_resume srep s) = defenderDriver s
   \<and> predictionResult_shown (loadStandings_resume srep s) = predictionResult_shown s"
proof -
  have year_reply:
    "currentLap (loadEvents_resume (Body evs) s) = LapNull
     \<and> chaserDriver (loadEvents_resume (Body evs) s) = None
     \<and> defenderDriver (loadEvents_resume (Body evs) s) = None
     \<and> \<not> predictionResult_shown (loadEvents_resume (Body evs) s)
     \<and> lapSlider_disabled (loadEvents_resume (Body evs) s)
     \<and> standingsList_html (loadEvents_resume (Body evs) s) = SelectRacePrompt
     \<and> currentRound (loadEvents_resume (Body evs) s) = currentRound s
     \<and> standings (loadEvents_resume (Body evs) s) = standings s"
    by (simp add: loadEvents_resume_def clearSelections_def slider_defs showError_def Let_def
        split: option.split list.split)
  have year_handler:
    "currentRound (step (YearChange v) s) = currentRound s
     \<and> currentLap (step (YearChange v) s) = currentLap s
     \<and> chaserDriver (step (YearChange v) s) = chaserDriver s
     \<and> defenderDriver (step (YearChange v) s) = defenderDriver s
     \<and> standings (step (YearChange v) s) = standings s
     \<and> predictionResult_shown (step (YearChange v) s) = predictionResult_shown s"
    by (simp add: on_yearSelect_change_def loadEvents_def fetch_def showLoadingInSelect_def Let_def)
  have race_handler:
    "currentLap (step (RaceChange v) s) = currentLap s
     \<and> chaserDriver (step (RaceChange v) s) = chaserDriver s
     \<and> defenderDriver (step (RaceChange v) s) = defenderDriver s
     \<and> standings (step (RaceChange v) s) = standings s
     \<and> predictionResult_shown (step (RaceChange v) s) = predictionResult_shown s"
    by (simp add: on_eventSelect_change_def loadLaps_def fetch_def showLoadingInPanel_def Let_def)
  have race_reply:
    "chaserDriver (loadLaps_resume y r lrep s) = chaserDriver s
     \<and> defenderDriver (loadLaps_resume y r lrep s) = defenderDriver s
     \<and> standings (loadLaps_resume y r lrep s) = standings s
     \<and> predictionResult_shown (loadLaps_resume y r lrep s) = predictionResult_shown s"
    by (simp add: loadLaps_resume_def loadStandings_def fetch_def showLoadingInPanel_def
        hideLoadingInPanel_def showError_def slider_defs Let_def
        split: reply.split option.split list.split)
  have lap_handler:
    "currentLap (step (LapInput w) s) = parseInt w
     \<and> chaserDriver (step (LapInput w) s) = chaserDriver s
     \<and> defenderDriver (step (LapInput w) s) = defenderDriver s
     \<and> standings (step (LapInput w) s) = standings s
     \<and> predictionResult_shown (step (LapInput w) s) = predictionResult_shown s"
    by (simp add: on_lapSlider_input_def loadStandings_def fetch_def showLoadingInPanel_def
        Let_def split: option.split)
  have lap_reply:
    "chaserDriver (loadStandings_resume srep s) = chaserDriver s
     \<and> defenderDriver (loadStandings_resume srep s) = defenderDriver s
     \<and> predictionResult_shown (loadStandings_resume srep s) = predictionResult_shown s"
    by (cases srep)
      (simp_all add: loadStandings_resume_def hideLoadingInPanel_def showError_def
        updateStandingsList_def updateDriverSelects_def Let_def)
  from year_reply year_handler race_handler race_reply lap_handler lap_reply
  show ?thesis by blast
qed

subsection \<open>Keys of issued fetches\<close>

lemma quiet_helpers:
  "pending (showError m s) = pending s" "issued (showError m s) = issued s"
  "pending (hideLoadingInPanel s) = pending s" "issued (hideLoadingInPanel s) = issued s"
  "pending (hideLoading s) = pending s" "issued (hideLoading s) = issued s"
  "pending (clearSelections s) = pending s" "issued (clearSelections s) = issued s"
  "pending (updateStandingsList s) = pending s" "issued (updateStandingsList s) = issued s"
  "pending (updateDriverSelects s) = pending s" "issued (updateDriverSelects s) = issued s"
  "pending (updateSelectedDrivers s) = pending s" "issued (updateSelectedDrivers s) = issued s"
  "pending (displayPrediction d s) = pending s" "issued (displayPrediction d s) = issued s"
  by (simp_all add: showError_def hideLoadingInPanel_def hideLoading_def clearSelections_def
      slider_defs updateStandingsList_def updateDriverSelects_def updateSelectedDrivers_def
      displayPrediction_def Let_def)

lemma selectDriver_quiet:
  "pending (selectDriver d s) = pending s" "issued (selectDriver d s) = issued s"
  by (simp_all add: selectDriver_def quiet_helpers)

lemma loadEvents_resume_quiet:
  "pending (loadEvents_resume rep s) = pending s" "issued (loadEvents_resume rep s) = issued s"
  by (simp_all add: loadEvents_resume_def quiet_helpers Let_def
      split: reply.split option.split list.split)

lemma loadStandings_resume_quiet:
  "pending (loadStandings_resume rep s) = pending s"
  "issued (loadStandings_resume rep s) = issued s"
  by (simp_all add: loadStandings_resume_def quiet_helpers split: reply.split)

lemma predictUndercut_resume_quiet:
  "pending (predictUndercut_resume rep s) = pending s"
  "issued (predictUndercut_resume rep s) = issued s"
  by (simp_all add: predictUndercut_resume_def quiet_helpers Let_def
      split: predict_reply.split option.split)

lemma loadLaps_resume_fetches:
  "(\<exists>l. truthy_lap l \<and> currentLap (loadLaps_resume y r rep s) = l
        \<and> pending (loadLaps_resume y r rep s) = pending s @ [ReqStandings y r l]
        \<and> issued (loadLaps_resume y r rep s) = issued s @ [ReqStandings y r l])
   \<or> (pending (loadLaps_resume y r rep s) = pending s
        \<and> issued (loadLaps_resume y r rep s) = issued s)"
proof (cases "\<exists>laps v vs. rep = Body (Some laps) \<and> filter (\<lambda>lap. 1 \<le> lap) laps = v # vs")
  case True
  then obtain laps v vs
    where b: "rep = Body (Some laps)" and f: "filter (\<lambda>lap. 1 \<le> lap) laps = v # vs"
    by blast
  have "truthy_lap (parseInt_value (max 1 (fold min vs v)))"
    by (rule parseInt_value_truthy) simp
  then show ?thesis
    unfolding b loadLaps_resume_valid [OF f]
    by (simp add: loadStandings_def fetch_def showLoadingInPanel_def hideLoadingInPanel_def)
next
  case False
  then have "pending (loadLaps_resume y r rep s) = pending s
      \<and> issued (loadLaps_resume y r rep s) = issued s"
    by (auto simp add: loadLaps_resume_def quiet_helpers Let_def
        split: reply.split option.split list.split)
  then show ?thesis by blast
qed

lemma loadLaps_resume_keys:
  assumes "truthy_str y" "truthy_str r" "all_keys_set s"
  shows "all_keys_set (loadLaps_resume y r rep s)"
  using loadLaps_resume_fetches [of y r rep s] assms
  by (auto simp add: all_keys_set_def)

lemma removed_keys:
  "list_all keys_set ps \<Longrightarrow> list_all keys_set (take n ps @ drop (Suc n) ps)"
  by (auto simp add: list_all_iff dest: in_set_takeD in_set_dropD)

lemma deliver_keys:
  assumes "all_keys_set s"
  shows "all_keys_set (deliver n rsp s)"
proof (cases "n < length (pending s)")
  case False
  with assms show ?thesis by (simp add: deliver_def)
next
  case True
  let ?s1 = "s\<lparr>pending := take n (pending s) @ drop (Suc n) (pending s)\<rparr>"
  from assms have s1: "all_keys_set ?s1"
    using removed_keys [of "pending s" n] by (simp add: all_keys_set_def)
  from assms True have k: "keys_set (pending s ! n)"
    by (simp add: all_keys_set_def list_all_length)
  show ?thesis
  proof (cases "resume (pending s ! n) rsp ?s1")
    case None
    with True assms show ?thesis by (simp add: deliver_def)
  next
    case (Some s')
    have "all_keys_set s'"
    proof (cases "pending s ! n")
      case (ReqEvents y)
      with Some s1 show ?thesis
        by (cases rsp) (auto simp add: all_keys_set_def loadEvents_resume_quiet)
    next
      case (ReqLaps y r)
      with Some s1 k show ?thesis
        by (cases rsp) (auto simp add: loadLaps_resume_keys)
    next
      case (ReqStandings y r l)
      with Some s1 show ?thesis
        by (cases rsp) (auto simp add: all_keys_set_def loadStandings_resume_quiet)
    next
      case (ReqPredict y r l c d)
      with Some s1 show ?thesis
        by (cases rsp) (auto simp add: all_keys_set_def predictUndercut_resume_quiet)
    qed
    with True Some show ?thesis by (simp add: deliver_def)
  qed
qed

lemma step_keys:
  assumes "all_keys_set s"
  shows "all_keys_set (step e s)"
proof (cases e)
  case (YearChange v)
  with assms show ?thesis
    by (simp add: all_keys_set_def on_yearSelect_change_def loadEvents_def fetch_def
        showLoadingInSelect_def Let_def)
next
  case (RaceChange v)
  with assms show ?thesis
    by (simp add: all_keys_set_def on_eventSelect_change_def loadLaps_def fetch_def
        showLoadingInPanel_def Let_def)
next
  case (LapInput v)
  with assms show ?thesis
    by (simp add: all_keys_set_def on_lapSlider_input_def loadStandings_def fetch_def
        showLoadingInPanel_def Let_def split: option.split)
next
  case (ChaserChange v)
  with assms show ?thesis
    by (simp add: all_keys_set_def on_chaserSelect_change_def quiet_helpers)
next
  case (DefenderChange v)
  with assms show ?thesis
    by (simp add: all_keys_set_def on_defenderSelect_change_def quiet_helpers)
next
  case (DriverClick d)
  with assms show ?thesis
    by (simp add: all_keys_set_def selectDriver_quiet)
next
  case PredictClick
  with assms show ?thesis
    by (simp add: all_keys_set_def predictUndercut_def validateSelection_def fetch_def
        showLoading_def quiet_helpers)
next
  case (Deliver n rsp)
  with assms show ?thesis by (simp add: deliver_keys)
qed

lemma run_keys: "all_keys_set s \<Longrightarrow> all_keys_set (run es s)"
  by (induction es arbitrary: s) (simp_all add: step_keys)

lemma initial_keys: "all_keys_set initial"
  by (simp add: all_keys_set_def initial_def)

lemma selection_event_fetches:
  assumes "\<not> is_Deliver e"
  shows "list_all (\<lambda>q. upstream_set q (step e s) \<and> carries_selection q (step e s))
           (new_fetches e s)"
proof (cases e)
  case (YearChange v)
  then show ?thesis
    by (simp add: new_fetches_def on_yearSelect_change_def loadEvents_def fetch_def
        showLoadingInSelect_def Let_def)
next
  case (RaceChange v)
  then show ?thesis
    by (simp add: new_fetches_def on_eventSelect_change_def loadLaps_def fetch_def
        showLoadingInPanel_def Let_def)
next
  case (LapInput v)
  then show ?thesis
    by (simp add: new_fetches_def on_lapSlider_input_def loadStandings_def fetch_def
        showLoadingInPanel_def Let_def split: option.split)
next
  case (ChaserChange v)
  then show ?thesis
    by (simp add: new_fetches_def on_chaserSelect_change_def quiet_helpers)
next
  case (DefenderChange v)
  then show ?thesis
    by (simp add: new_fetches_def on_defenderSelect_change_def quiet_helpers)
next
  case (DriverClick d)
  then show ?thesis
    by (simp add: new_fetches_def selectDriver_quiet)
next
  case PredictClick
  then show ?thesis
    by (simp add: new_fetches_def predictUndercut_def validateSelection_def fetch_def
        showLoading_def quiet_helpers)
next
  case (Deliver n rsp)
  with assms show ?thesis by simp
qed

lemma chained_fetch:
  assumes "n < length (pending s)" "pending s ! n = ReqLaps y r"
  shows "list_all (\<lambda>q. q = ReqStandings y r (currentLap (step (Deliver n (RLaps rep)) s))
                       \<and> truthy_lap (currentLap (step (Deliver n (RLaps rep)) s)))
           (new_fetches (Deliver n (RLaps rep)) s)"
proof -
  let ?s1 = "s\<lparr>pending := take n (pending s) @ drop (Suc n) (pending s)\<rparr>"
  have d: "step (Deliver n (RLaps rep)) s = loadLaps_resume y r rep ?s1"
    using assms by (simp add: deliver_def)
  show ?thesis
    using loadLaps_resume_fetches [of y r rep ?s1]
    by (auto simp add: new_fetches_def d simp del: step.simps)
qed

lemma other_deliveries_quiet:
  "new_fetches (Deliver n (REvents erep)) s = []"
  "new_fetches (Deliver n (RStandings srep)) s = []"
  "new_fetches (Deliver n (RPredict prep)) s = []"
proof -
  have "issued (deliver n (REvents erep) s) = issued s"
    by (cases "pending s ! n")
      (simp_all add: deliver_def loadEvents_resume_quiet)
  moreover have "issued (deliver n (RStandings srep) s) = issued s"
    by (cases "pending s ! n")
      (simp_all add: deliver_def loadStandings_resume_quiet)
  moreover have "issued (deliver n (RPredict prep) s) = issued s"
    by (cases "pending s ! n")
      (simp_all add: deliver_def predictUndercut_resume_quiet)
  ultimately show "new_fetches (Deliver n (REvents erep)) s = []"
    "new_fetches (Deliver n (RStandings srep)) s = []"
    "new_fetches (Deliver n (RPredict prep)) s = []"
    by (simp_all add: new_fetches_def)
qed


text \<open>
  Claim C3 as stated fails.  Race 5 is chosen, so its laps are requested; before they
  arrive the race select is set back to "Select Race", which makes the round empty.  When
  the laps arrive, \<open>loadLaps\<close> goes on to request the standings of lap 1 for race 5: a
  standings fetch is issued while the round selection is unset.
\<close>

theorem no_fetch_while_unset_counterexample:
  "new_fetches late_laps laps_in_flight
     = [ReqStandings (Some ''2023'') (Some ''5'') (LapNum 1)]
   \<and> currentRound (step late_laps laps_in_flight) = Some []
   \<and> \<not> upstream_set (ReqStandings (Some ''2023'') (Some ''5'') (LapNum 1))
         (step late_laps laps_in_flight)"
  by (simp add: new_fetches_def laps_in_flight_def late_laps_def race_unchosen_def
      helper_defs method_defs handler_defs sample_defs Let_def)

text \<open>
  Claim C3, amended.  Whatever events and responses arrive in whatever order, every
  fetch ever issued carries keys that are all set: the year for events; year and round
  for laps; year, round and lap for standings; all five fields for a prediction.  Every
  fetch issued by a selection event or by the predict action is issued while the
  selections upstream of its level are set in the session state, and carries exactly
  those selections.  The one fetch issued on a response is the standings fetch that
  \<open>loadLaps\<close> chains: it carries the year and round of the laps request it answers and
  the default lap just made current, which is set; the current year and round may have
  changed since that request, or be empty.
\<close>

theorem fetch_keys_always_set:
  "list_all keys_set (issued (run es initial))
   \<and> (all_keys_set s \<longrightarrow> all_keys_set (run es s))
   \<and> (\<not> is_Deliver e \<longrightarrow>
        list_all (\<lambda>q. upstream_set q (step e s) \<and> carries_selection q (step e s))
          (new_fetches e s))
   \<and> (n < length (pending s) \<and> pending s ! n = ReqLaps y r \<longrightarrow>
        list_all (\<lambda>q. q = ReqStandings y r (currentLap (step (Deliver n (RLaps rep)) s))
                      \<and> truthy_lap (currentLap (step (Deliver n (RLaps rep)) s)))
          (new_fetches (Deliver n (RLaps rep)) s))
   \<and> new_fetches (Deliver n (REvents erep)) s = []
   \<and> new_fetches (Deliver n (RStandings srep)) s = []
   \<and> new_fetches (Deliver n (RPredict prep)) s = []"
proof -
  have "all_keys_set (run es initial)"
    by (rule run_keys [OF initial_keys])
  then have always: "list_all keys_set (issued (run es initial))"
    by (simp add: all_keys_set_def)
  from always run_keys [of s es] selection_event_fetches [of e s]
    chained_fetch [of n s y r rep] other_deliveries_quiet [of n _ s]
  show ?thesis by blast
qed

theorem fetch_keys_always_set_witness:
  "all_keys_set initial
   \<and> all_keys_set (run (race_unchosen @ [late_laps]) initial)
   \<and> \<not> is_Deliver (YearChange ''2023'')
   \<and> new_fetches (YearChange ''2023'') initial = [ReqEvents (Some ''2023'')]
   \<and> upstream_set (ReqEvents (Some ''2023'')) (step (YearChange ''2023'') initial)
   \<and> 0 < length (pending laps_in_flight)
   \<and> pending laps_in_flight ! 0 = ReqLaps (Some ''2023'') (Some ''5'')
   \<and> new_fetches late_laps laps_in_flight
       = [ReqStandings (Some ''2023'') (Some ''5'') (LapNum 1)]
   \<and> truthy_lap (currentLap (step late_laps laps_in_flight))"
proof -
  have k: "all_keys_set initial"
    by (simp add: all_keys_set_def initial_def)
  have d: "\<not> is_Deliver (YearChange ''2023'')" by simp
  have f: "new_fetches (YearChange ''2023'') initial = [ReqEvents (Some ''2023'')]"
    by (simp add: new_fetches_def initial_def on_yearSelect_change_def loadEvents_def
        fetch_def showLoadingInSelect_def truthy_str_def Let_def)
  have p: "pending laps_in_flight = [ReqLaps (Some ''2023'') (Some ''5'')]"
    by (simp add: laps_in_flight_def race_unchosen_def helper_defs method_defs handler_defs
        sample_defs Let_def)
  have c: "new_fetches late_laps laps_in_flight
             = [ReqStandings (Some ''2023'') (Some ''5'') (LapNum 1)]"
    by (simp add: new_fetches_def laps_in_flight_def late_laps_def race_unchosen_def
        helper_defs method_defs handler_defs sample_defs Let_def)
  show ?thesis
    using fetch_keys_always_set
        [of "race_unchosen @ [late_laps]" initial "YearChange ''2023''" 0 None None]
      fetch_keys_always_set
        [of "[]" laps_in_flight "YearChange ''2023''" 0 "Some ''2023''" "Some ''5''"
            "Body (Some [1, 2, 3])"]
      k d f p c
    by (simp add: late_laps_def [symmetric] del: step.simps)
qed

end
